theory Spec2Isabelle
  imports Complex_Main "HOL-Library.Multiset"
begin

section \<open>Python values used by the checker\<close>

text \<open>
  A Python \<open>str\<close> is a sequence of Unicode code points; it is modelled as a list of
  natural numbers. ASCII literals of the source are written with \<open>lit\<close>.
  Scores are Python floats; they are modelled as real numbers. Comparisons of finite
  floats are exact, so the classifier and the sort behave as in the source; sums,
  products and quotients are the exact ones, without rounding.
\<close>

type_synonym pystr = "nat list"

definition lit :: "string \<Rightarrow> pystr" where
  "lit s = map of_char s"

text \<open>
  The exceptions that the modelled code can raise. \<open>ReadError\<close> stands for whatever a
  reader of a document raises (\<open>OSError\<close>, \<open>PdfReadError\<close>, \<open>BadZipFile\<close>, ...).
\<close>

datatype exn =
    FileNotFoundError
  | ValueError
  | IndexError
  | ZeroDivisionError
  | ReadError

section \<open>Risk level labeling\<close>

text \<open>
  \<open>similarity_risk_level\<close> of \<open>checker.py\<close> (and its copy in \<open>gui_app.py\<close>).
  The four labels end in a coloured-circle emoji: code points U+1F534, U+1F7E0,
  U+1F7E1 and U+1F7E2.
\<close>

definition HIGH_RISK :: pystr where
  "HIGH_RISK = lit ''HIGH RISK '' @ [0x1F534]"

definition MEDIUM_RISK :: pystr where
  "MEDIUM_RISK = lit ''MEDIUM RISK '' @ [0x1F7E0]"

definition MILD_SIMILARITY :: pystr where
  "MILD_SIMILARITY = lit ''MILD SIMILARITY '' @ [0x1F7E1]"

definition SAFE :: pystr where
  "SAFE = lit ''SAFE '' @ [0x1F7E2]"

definition similarity_risk_level :: "real \<Rightarrow> pystr" where
  "similarity_risk_level score =
     (if score \<ge> 85 then HIGH_RISK
      else if score \<ge> 70 then MEDIUM_RISK
      else if score \<ge> 50 then MILD_SIMILARITY
      else SAFE)"

section \<open>Pairwise results\<close>

text \<open>
  A pair result is the tuple \<open>(files[i].name, files[j].name, score)\<close> appended by the
  nested loop of \<open>generate_report\<close> (the same loop is in \<open>gui_app.py\<close> over \<open>names\<close>).
  The similarity matrix is a two-dimensional array; \<open>sim_matrix[i, j]\<close> raises
  \<open>IndexError\<close> outside its shape.
\<close>

type_synonym pair_result = "pystr \<times> pystr \<times> real"

type_synonym matrix = "real list list"

definition mat_get :: "matrix \<Rightarrow> nat \<Rightarrow> nat \<Rightarrow> exn + real" where
  "mat_get M i j =
     (if i < length M \<and> j < length (M ! i) then Inr (M ! i ! j) else Inl IndexError)"

text \<open>\<open>for j in range(i + 1, len(files))\<close>, the list argument is the range still to run.\<close>

fun inner_loop ::
  "pystr list \<Rightarrow> matrix \<Rightarrow> nat \<Rightarrow> nat list \<Rightarrow> pair_result list \<Rightarrow> exn + pair_result list"
where
  "inner_loop files M i [] results = Inr results"
| "inner_loop files M i (j # js) results =
     (case mat_get M i j of
        Inl e \<Rightarrow> Inl e
      | Inr v \<Rightarrow> inner_loop files M i js (results @ [(files ! i, files ! j, v * 100)]))"

text \<open>\<open>for i in range(len(files))\<close>.\<close>

fun outer_loop ::
  "pystr list \<Rightarrow> matrix \<Rightarrow> nat list \<Rightarrow> pair_result list \<Rightarrow> exn + pair_result list"
where
  "outer_loop files M [] results = Inr results"
| "outer_loop files M (i # is) results =
     (case inner_loop files M i [i + 1 ..< length files] results of
        Inl e \<Rightarrow> Inl e
      | Inr results' \<Rightarrow> outer_loop files M is results')"

definition pair_results :: "pystr list \<Rightarrow> matrix \<Rightarrow> exn + pair_result list" where
  "pair_results files M = outer_loop files M [0 ..< length files] []"

text \<open>The index pairs \<open>(i, j)\<close> with \<open>i < j < n\<close>, row by row: the order of enumeration.\<close>

definition pair_indices :: "nat \<Rightarrow> (nat \<times> nat) list" where
  "pair_indices n = concat (map (\<lambda>i. map (Pair i) [Suc i ..< n]) [0 ..< n])"

definition is_square :: "nat \<Rightarrow> matrix \<Rightarrow> bool" where
  "is_square n M \<longleftrightarrow> length M = n \<and> list_all (\<lambda>row. length row = n) M"

definition entries_in_unit :: "matrix \<Rightarrow> bool" where
  "entries_in_unit M \<longleftrightarrow> list_all (list_all (\<lambda>v. 0 \<le> v \<and> v \<le> 1)) M"

section \<open>Sorting and aggregation\<close>

text \<open>\<open>lambda x: x[2]\<close>, the sort key.\<close>

definition score :: "pair_result \<Rightarrow> real" where
  "score r = snd (snd r)"

text \<open>
  \<open>list.sort(key=..., reverse=True)\<close>. CPython reverses the list, sorts it with its
  stable ascending sort and reverses the result, which is how the documented stability
  under \<open>reverse=True\<close> comes about. The stable ascending sort is \<open>sort_key\<close>.
\<close>

definition py_sort_reverse :: "('a \<Rightarrow> 'k::linorder) \<Rightarrow> 'a list \<Rightarrow> 'a list" where
  "py_sort_reverse key xs = rev (sort_key key (rev xs))"

text \<open>\<open>xs[0]\<close>, \<open>xs[-1]\<close> and \<open>/\<close> with the exceptions they raise.\<close>

definition py_first :: "'a list \<Rightarrow> exn + 'a" where
  "py_first xs = (case xs of [] \<Rightarrow> Inl IndexError | x # _ \<Rightarrow> Inr x)"

definition py_last :: "'a list \<Rightarrow> exn + 'a" where
  "py_last xs = (if xs = [] then Inl IndexError else Inr (last xs))"

definition py_div :: "real \<Rightarrow> nat \<Rightarrow> exn + real" where
  "py_div a n = (if n = 0 then Inl ZeroDivisionError else Inr (a / real n))"

record summary =
  total_documents :: nat
  total_comparisons :: nat
  highest :: pair_result
  lowest :: pair_result
  average :: real

text \<open>
  The statistics computed after the sort, in both entry points:
  \<open>highest = results[0]\<close>, \<open>lowest = results[-1]\<close>,
  \<open>avg = sum(r[2] for r in results) / len(results)\<close>.
\<close>

definition aggregate :: "nat \<Rightarrow> pair_result list \<Rightarrow> exn + summary" where
  "aggregate num_docs results =
     (case py_first results of
        Inl e \<Rightarrow> Inl e
      | Inr hi \<Rightarrow>
         (case py_last results of
            Inl e \<Rightarrow> Inl e
          | Inr lo \<Rightarrow>
             (case py_div (sum_list (map score results)) (length results) of
                Inl e \<Rightarrow> Inl e
              | Inr avg \<Rightarrow>
                  Inr \<lparr>total_documents = num_docs, total_comparisons = length results,
                       highest = hi, lowest = lo, average = avg\<rparr>)))"

section \<open>Report generation\<close>

text \<open>
  \<open>generate_report(files, sim_matrix, threshold)\<close>. The report files (CSV, TXT, XLSX) all
  hold the same rows, the sorted results with their risk label; the console shows the rows
  with \<open>score >= threshold * 100\<close>. With no pair the function prints
  \<open>No document pairs to compare.\<close> and returns.
\<close>

type_synonym row = "pystr \<times> pystr \<times> real \<times> pystr"

definition make_row :: "pair_result \<Rightarrow> row" where
  "make_row r = (fst r, fst (snd r), score r, similarity_risk_level (score r))"

datatype report =
    NoPairs
  | Report summary "row list" "row list"

definition generate_report :: "pystr list \<Rightarrow> matrix \<Rightarrow> real \<Rightarrow> exn + report" where
  "generate_report files M threshold =
     (case pair_results files M of
        Inl e \<Rightarrow> Inl e
      | Inr results \<Rightarrow>
          if results = [] then Inr NoPairs
          else
            (let sorted_results = py_sort_reverse score results in
             case aggregate (length files) sorted_results of
               Inl e \<Rightarrow> Inl e
             | Inr stats \<Rightarrow>
                 Inr (Report stats
                       (map make_row (filter (\<lambda>r. score r \<ge> threshold * 100) sorted_results))
                       (map make_row sorted_results))))"

section \<open>Strings\<close>

text \<open>
  \<open>str.isspace\<close> for one code point: the whitespace table of CPython.
\<close>

definition py_isspace :: "nat \<Rightarrow> bool" where
  "py_isspace c \<longleftrightarrow>
     (0x09 \<le> c \<and> c \<le> 0x0D) \<or> (0x1C \<le> c \<and> c \<le> 0x20) \<or> c = 0x85 \<or> c = 0xA0
     \<or> c = 0x1680 \<or> (0x2000 \<le> c \<and> c \<le> 0x200A) \<or> c = 0x2028 \<or> c = 0x2029
     \<or> c = 0x202F \<or> c = 0x205F \<or> c = 0x3000"

text \<open>\<open>s.strip()\<close>: leading and trailing whitespace removed.\<close>

definition py_strip :: "pystr \<Rightarrow> pystr" where
  "py_strip s = rev (dropWhile py_isspace (rev (dropWhile py_isspace s)))"

text \<open>
  \<open>s.lower()\<close> on the letters A to Z. The source only compares lowered names with the
  ASCII literals \<open>.txt\<close>, \<open>.pdf\<close> and \<open>.docx\<close>, and no other code point lowers to one
  of their letters, so the comparisons come out as in Python.
\<close>

definition py_lower :: "pystr \<Rightarrow> pystr" where
  "py_lower s = map (\<lambda>c. if 0x41 \<le> c \<and> c \<le> 0x5A then c + 32 else c) s"

text \<open>\<open>s.rfind(c)\<close>, with \<open>None\<close> for Python's \<open>-1\<close>.\<close>

definition rfind :: "nat \<Rightarrow> pystr \<Rightarrow> nat option" where
  "rfind c s =
     (if c \<in> set s then Some (length s - 1 - length (takeWhile (\<lambda>x. x \<noteq> c) (rev s)))
      else None)"

text \<open>
  \<open>Path.suffix\<close> of a file name, as pathlib computes it (up to Python 3.13):
  \<open>i = name.rfind('.')\<close>, the suffix is \<open>name[i:]\<close> when \<open>0 < i < len(name) - 1\<close>
  and empty otherwise.
\<close>

definition suffix :: "pystr \<Rightarrow> pystr" where
  "suffix name =
     (case rfind 0x2E name of
        None \<Rightarrow> []
      | Some i \<Rightarrow> if 0 < i \<and> i + 1 < length name then drop i name else [])"

definition endswith :: "pystr \<Rightarrow> pystr \<Rightarrow> bool" where
  "endswith s t \<longleftrightarrow> length t \<le> length s \<and> drop (length s - length t) s = t"

text \<open>\<open>sep.join(xs)\<close>.\<close>

fun py_join :: "pystr \<Rightarrow> pystr list \<Rightarrow> pystr" where
  "py_join sep [] = []"
| "py_join sep [x] = x"
| "py_join sep (x # y # ys) = x @ sep @ py_join sep (y # ys)"

section \<open>Library calls\<close>

text \<open>
  What the code gets from outside the repository is a parameter of the model:
  \<^item> \<open>read_text\<close>: \<open>Path.read_text(encoding="utf-8", errors="ignore")\<close>, respectively
    \<open>file.read().decode("utf-8", errors="ignore")\<close>;
  \<^item> \<open>pdf_pages\<close>: the \<open>extract_text()\<close> of every page of \<open>PyPDF2.PdfReader\<close>, a page
    without text giving \<open>None\<close>;
  \<^item> \<open>docx_paragraphs\<close>: the \<open>text\<close> of every paragraph of \<open>docx.Document\<close>;
  \<^item> \<open>py_float\<close>: the built-in \<open>float\<close> on a string, \<open>None\<close> when it raises
    \<open>ValueError\<close> (the model has finite values only);
  \<^item> \<open>tfidf_cosine\<close>: \<open>cosine_similarity\<close> of the \<open>TfidfVectorizer\<close> features with
    \<open>lowercase=True\<close>, \<open>stop_words=None\<close> and the given \<open>ngram_range\<close>.
  Each may raise. A file is identified by its name: the files of one folder, or the
  files uploaded to the page.
\<close>

record lib =
  read_text :: "pystr \<Rightarrow> exn + pystr"
  pdf_pages :: "pystr \<Rightarrow> exn + pystr option list"
  docx_paragraphs :: "pystr \<Rightarrow> exn + pystr list"
  py_float :: "pystr \<Rightarrow> real option"
  tfidf_cosine :: "nat \<times> nat \<Rightarrow> pystr list \<Rightarrow> exn + matrix"

text \<open>\<open>text = ""; for page in reader.pages: text += page.extract_text() or ""\<close>.\<close>

definition pdf_text :: "pystr option list \<Rightarrow> pystr" where
  "pdf_text pages = concat (map (\<lambda>p. case p of None \<Rightarrow> [] | Some t \<Rightarrow> t) pages)"

section \<open>Loading documents (command line)\<close>

text \<open>
  The \<open>if/elif\<close> chain on the extension in the loop of \<open>load_documents\<close>. \<open>None\<close> is
  the last branch, which prints \<open>Skipping unsupported file\<close> and continues. Nothing in
  the loop catches an exception of a reader.
\<close>

definition extract_by_suffix :: "lib \<Rightarrow> pystr \<Rightarrow> exn + pystr option" where
  "extract_by_suffix L f =
     (let ext = py_lower (suffix f) in
      if ext = lit ''.txt'' then
        (case read_text L f of Inl e \<Rightarrow> Inl e | Inr text \<Rightarrow> Inr (Some text))
      else if ext = lit ''.pdf'' then
        (case pdf_pages L f of Inl e \<Rightarrow> Inl e | Inr pages \<Rightarrow> Inr (Some (pdf_text pages)))
      else if ext = lit ''.docx'' then
        (case docx_paragraphs L f of
           Inl e \<Rightarrow> Inl e
         | Inr ps \<Rightarrow> Inr (Some (py_join (lit [CHR 0x0A]) ps)))
      else Inr None)"

datatype message =
    SkippingUnsupported pystr
  | WarningEmpty pystr
  | CouldNotProcess pystr

text \<open>
  \<open>for f in files\<close>, with the state \<open>(texts, valid_files)\<close> and the lines printed so far.
\<close>

fun load_loop ::
  "lib \<Rightarrow> pystr list \<Rightarrow> pystr list \<times> pystr list \<times> message list
     \<Rightarrow> exn + (pystr list \<times> pystr list \<times> message list)"
where
  "load_loop L [] st = Inr st"
| "load_loop L (f # fs) (texts, valid_files, out) =
     (case extract_by_suffix L f of
        Inl e \<Rightarrow> Inl e
      | Inr None \<Rightarrow> load_loop L fs (texts, valid_files, out @ [SkippingUnsupported f])
      | Inr (Some text) \<Rightarrow>
          if py_strip text \<noteq> [] then load_loop L fs (texts @ [text], valid_files @ [f], out)
          else load_loop L fs (texts, valid_files, out @ [WarningEmpty f]))"

text \<open>
  \<open>load_documents(folder_path)\<close>. The folder is \<open>None\<close> when the path is not a
  directory and otherwise the value of \<open>sorted(folder.glob("*.*"))\<close>. The result is
  \<open>(valid_files, texts)\<close> and the printed lines.
\<close>

definition load_documents ::
  "lib \<Rightarrow> pystr list option \<Rightarrow> exn + (pystr list \<times> pystr list \<times> message list)"
where
  "load_documents L folder =
     (case folder of
        None \<Rightarrow> Inl FileNotFoundError
      | Some files \<Rightarrow>
          (case load_loop L files ([], [], []) of
             Inl e \<Rightarrow> Inl e
           | Inr (texts, valid_files, out) \<Rightarrow>
               if valid_files = [] then Inl ValueError else Inr (valid_files, texts, out)))"

text \<open>
  What the loop does with one file, read off its branches: whether the reader raises,
  whether the file is kept, its text and the line printed for it.
\<close>

definition raises :: "lib \<Rightarrow> pystr \<Rightarrow> bool" where
  "raises L f = (case extract_by_suffix L f of Inl e \<Rightarrow> True | Inr r \<Rightarrow> False)"

definition is_valid :: "lib \<Rightarrow> pystr \<Rightarrow> bool" where
  "is_valid L f =
     (case extract_by_suffix L f of
        Inl e \<Rightarrow> False
      | Inr None \<Rightarrow> False
      | Inr (Some text) \<Rightarrow> py_strip text \<noteq> [])"

definition text_of :: "lib \<Rightarrow> pystr \<Rightarrow> pystr" where
  "text_of L f = (case extract_by_suffix L f of Inr (Some text) \<Rightarrow> text | _ \<Rightarrow> [])"

definition warning_of :: "lib \<Rightarrow> pystr \<Rightarrow> message list" where
  "warning_of L f =
     (case extract_by_suffix L f of
        Inl e \<Rightarrow> []
      | Inr None \<Rightarrow> [SkippingUnsupported f]
      | Inr (Some text) \<Rightarrow> if py_strip text \<noteq> [] then [] else [WarningEmpty f])"

section \<open>The command-line entry point\<close>

text \<open>The two similarity functions of \<open>checker.py\<close>: they differ in the n-gram range.\<close>

definition compute_similarity_matrix :: "lib \<Rightarrow> pystr list \<Rightarrow> exn + matrix" where
  "compute_similarity_matrix L texts = tfidf_cosine L (1, 3) texts"

definition compute_semantic_similarity :: "lib \<Rightarrow> pystr list \<Rightarrow> exn + matrix" where
  "compute_semantic_similarity L texts = tfidf_cosine L (1, 5) texts"

text \<open>
  The \<open>try/except\<close> around the threshold prompt: \<open>float(input(...).strip()) / 100\<close>, and
  \<open>0.50\<close> when that raises.
\<close>

definition read_threshold :: "lib \<Rightarrow> pystr \<Rightarrow> real" where
  "read_threshold L threshold_input =
     (case py_float L (py_strip threshold_input) of
        None \<Rightarrow> 0.50
      | Some threshold_val \<Rightarrow> threshold_val / 100)"

datatype mode = Standard | Enhanced

text \<open>
  \<open>if mode == "2": ... else: ...\<close>, where \<open>mode\<close> is the stripped answer to the first
  prompt. The result names the branch taken (each prints its own banner) and holds the
  matrix.
\<close>

definition choose_similarity :: "lib \<Rightarrow> pystr \<Rightarrow> pystr list \<Rightarrow> mode \<times> (exn + matrix)" where
  "choose_similarity L mode texts =
     (if mode = lit ''2'' then (Enhanced, compute_semantic_similarity L texts)
      else (Standard, compute_similarity_matrix L texts))"

record run =
  mode_used :: mode
  threshold_used :: real
  loaded :: "(pystr \<times> nat) list"
  printed :: "message list"
  outcome :: report

text \<open>
  \<open>main()\<close>, as a function of the two lines typed at the prompts and of the
  \<open>submissions\<close> folder.
\<close>

definition main :: "lib \<Rightarrow> pystr \<Rightarrow> pystr \<Rightarrow> pystr list option \<Rightarrow> exn + run" where
  "main L mode_input threshold_input folder =
     (let mode = py_strip mode_input;
          threshold = read_threshold L threshold_input
      in case load_documents L folder of
           Inl e \<Rightarrow> Inl e
         | Inr (files, texts, out) \<Rightarrow>
             (case choose_similarity L mode texts of
                (m, Inl e) \<Rightarrow> Inl e
              | (m, Inr sim_matrix) \<Rightarrow>
                  (case generate_report files sim_matrix threshold of
                     Inl e \<Rightarrow> Inl e
                   | Inr rep \<Rightarrow>
                       Inr \<lparr>mode_used = m, threshold_used = threshold,
                            loaded = map (\<lambda>(f, t). (f, length t)) (zip files texts),
                            printed = out, outcome = rep\<rparr>)))"

section \<open>The graphical entry point\<close>

text \<open>\<open>extract_text(file)\<close> of \<open>gui_app.py\<close>: it tests the end of the lowered name.\<close>

definition extract_text :: "lib \<Rightarrow> pystr \<Rightarrow> exn + pystr" where
  "extract_text L f =
     (let name = py_lower f in
      if endswith name (lit ''.txt'') then read_text L f
      else if endswith name (lit ''.pdf'') then
        (case pdf_pages L f of Inl e \<Rightarrow> Inl e | Inr pages \<Rightarrow> Inr (pdf_text pages))
      else if endswith name (lit ''.docx'') then
        (case docx_paragraphs L f of
           Inl e \<Rightarrow> Inl e
         | Inr ps \<Rightarrow> Inr (py_join (lit [CHR 0x0A]) ps))
      else Inr [])"

definition compute_similarity :: "lib \<Rightarrow> pystr list \<Rightarrow> bool \<Rightarrow> exn + matrix" where
  "compute_similarity L texts enhanced =
     tfidf_cosine L (if enhanced then (1, 5) else (1, 3)) texts"

text \<open>\<open>for f in uploaded_files\<close>, with the state \<open>(texts, names)\<close> and the warnings shown.\<close>

fun upload_loop ::
  "lib \<Rightarrow> pystr list \<Rightarrow> pystr list \<times> pystr list \<times> message list
     \<Rightarrow> exn + (pystr list \<times> pystr list \<times> message list)"
where
  "upload_loop L [] st = Inr st"
| "upload_loop L (f # fs) (texts, names, out) =
     (case extract_text L f of
        Inl e \<Rightarrow> Inl e
      | Inr text \<Rightarrow>
          if py_strip text \<noteq> [] then upload_loop L fs (texts @ [text], names @ [f], out)
          else upload_loop L fs (texts, names, out @ [CouldNotProcess f]))"

text \<open>
  What the page shows after \<open>Run Similarity Analysis\<close>: one of the two warnings, or the
  summary and the sorted rows, each flagged when \<open>score >= threshold\<close>.
\<close>

datatype analysis =
    PleaseUpload
  | NotEnoughValid "message list"
  | Analysis summary "(row \<times> bool) list" "message list"

definition run_analysis :: "lib \<Rightarrow> bool \<Rightarrow> real \<Rightarrow> pystr list \<Rightarrow> exn + analysis" where
  "run_analysis L enhanced threshold uploaded_files =
     (if uploaded_files = [] \<or> length uploaded_files < 2 then Inr PleaseUpload
      else
        (case upload_loop L uploaded_files ([], [], []) of
           Inl e \<Rightarrow> Inl e
         | Inr (texts, names, out) \<Rightarrow>
             if length texts < 2 then Inr (NotEnoughValid out)
             else
               (case compute_similarity L texts enhanced of
                  Inl e \<Rightarrow> Inl e
                | Inr sim_matrix \<Rightarrow>
                    (case pair_results names sim_matrix of
                       Inl e \<Rightarrow> Inl e
                     | Inr results \<Rightarrow>
                         (let sorted_results = py_sort_reverse score results in
                          case aggregate (length names) sorted_results of
                            Inl e \<Rightarrow> Inl e
                          | Inr stats \<Rightarrow>
                              Inr (Analysis stats
                                    (map (\<lambda>r. (make_row r, score r \<ge> threshold))
                                         sorted_results)
                                    out))))))"

text \<open>The same reading of the loop of \<open>gui_app.py\<close>.\<close>

definition upload_raises :: "lib \<Rightarrow> pystr \<Rightarrow> bool" where
  "upload_raises L f = (case extract_text L f of Inl e \<Rightarrow> True | Inr text \<Rightarrow> False)"

definition upload_valid :: "lib \<Rightarrow> pystr \<Rightarrow> bool" where
  "upload_valid L f =
     (case extract_text L f of Inl e \<Rightarrow> False | Inr text \<Rightarrow> py_strip text \<noteq> [])"

definition upload_text :: "lib \<Rightarrow> pystr \<Rightarrow> pystr" where
  "upload_text L f = (case extract_text L f of Inl e \<Rightarrow> [] | Inr text \<Rightarrow> text)"

section \<open>Cosine similarity of the feature rows\<close>

text \<open>Modelled from the spec: the library's \<open>cosine_similarity\<close>, which the repository
  only calls (\<open>sim_matrix = cosine_similarity(tfidf)\<close>) and whose code is not part of it.
  The spec (4.2, 4.3): every document's feature row is L2-normalised, so that cosine
  similarity is a plain dot product, and the entry \<open>[i, j]\<close> of the matrix is the cosine
  similarity between row \<open>i\<close> and row \<open>j\<close>. A row of norm zero is left as it is.\<close>

definition dot :: "real list \<Rightarrow> real list \<Rightarrow> real" where
  "dot x y = sum_list (map2 (*) x y)"

definition l2_normalize :: "real list \<Rightarrow> real list" where
  "l2_normalize x = (let n = sqrt (dot x x) in if n = 0 then x else map (\<lambda>v. v / n) x)"

definition cosine_similarity :: "real list list \<Rightarrow> matrix" where
  "cosine_similarity X =
     (let N = map l2_normalize X in map (\<lambda>x. map (\<lambda>y. dot x y) N) N)"

text \<open>Modelled from the spec: the library call behind \<open>compute_similarity_matrix\<close>,
  \<open>compute_semantic_similarity\<close> and \<open>compute_similarity\<close>, that is
  \<open>cosine_similarity(vectorizer.fit_transform(texts))\<close>. The vectorizer, which turns the
  texts into feature rows for an n-gram range (spec 4.2), stays a parameter.\<close>

definition spec_tfidf_cosine ::
  "(nat \<times> nat \<Rightarrow> pystr list \<Rightarrow> real list list) \<Rightarrow> nat \<times> nat \<Rightarrow> pystr list \<Rightarrow> exn + matrix"
where
  "spec_tfidf_cosine vectorize ngram_range texts =
     Inr (cosine_similarity (vectorize ngram_range texts))"

section \<open>Orderings\<close>

text \<open>Descending order of the keys, as the reports list the results.\<close>

definition sorted_desc :: "('a \<Rightarrow> 'k::linorder) \<Rightarrow> 'a list \<Rightarrow> bool" where
  "sorted_desc key xs \<longleftrightarrow> sorted_wrt (\<lambda>a b. key a \<ge> key b) xs"

section \<open>Example data\<close>

definition demo_files :: "pystr list" where
  "demo_files = [lit ''a.txt'', lit ''b.txt'', lit ''c.txt'']"

definition demo_matrix :: matrix where
  "demo_matrix = [[1, 1/2, 1/4], [1/2, 1, 0], [1/4, 0, 1]]"

definition demo_results :: "pair_result list" where
  "demo_results =
     [(lit ''a'', lit ''b'', 30), (lit ''a'', lit ''c'', 90),
      (lit ''a'', lit ''d'', 90), (lit ''b'', lit ''c'', 10)]"

definition demo_sorted :: "pair_result list" where
  "demo_sorted =
     [(lit ''a'', lit ''c'', 90), (lit ''a'', lit ''d'', 90),
      (lit ''a'', lit ''b'', 30), (lit ''b'', lit ''c'', 10)]"

definition demo_three :: "pair_result list" where
  "demo_three =
     [(lit ''a'', lit ''b'', 20), (lit ''a'', lit ''c'', 60), (lit ''b'', lit ''c'', 100)]"

text \<open>
  A stand-in for the library: three text files (the second blank), a PDF of two pages
  (the second without text), a DOCX of two paragraphs, every other file unreadable; a
  number parser that knows \<open>50\<close> and \<open>80\<close>; a similarity of one half between
  any two different texts.
\<close>

definition demo_lib :: lib where
  "demo_lib =
     \<lparr>read_text = (\<lambda>f. if f = lit ''a.txt'' then Inr (lit ''the cat sat'')
                         else if f = lit ''b.txt'' then Inr (lit ''   '')
                         else if f = lit ''c.txt'' then Inr (lit ''the cat ran'')
                         else Inl ReadError),
      pdf_pages = (\<lambda>f. if f = lit ''d.pdf'' then Inr [Some (lit ''page one''), None]
                         else Inl ReadError),
      docx_paragraphs = (\<lambda>f. if f = lit ''e.docx'' then Inr [lit ''first'', lit ''second'']
                               else Inl ReadError),
      py_float = (\<lambda>s. if s = lit ''80'' then Some 80
                        else if s = lit ''50'' then Some 50 else None),
      tfidf_cosine = (\<lambda>ngram_range texts.
         Inr (map (\<lambda>i. map (\<lambda>j. if i = j then 1 else 1 / 2) [0 ..< length texts])
                  [0 ..< length texts]))\<rparr>"

definition demo_folder :: "pystr list option" where
  "demo_folder = Some [lit ''a.txt'', lit ''b.txt'', lit ''c.txt'', lit ''notes.md'']"

definition demo_report :: report where
  "demo_report =
     Report \<lparr>total_documents = 2, total_comparisons = 1,
             highest = (lit ''a.txt'', lit ''c.txt'', 50),
             lowest = (lit ''a.txt'', lit ''c.txt'', 50), average = 50\<rparr>
       [(lit ''a.txt'', lit ''c.txt'', 50, MILD_SIMILARITY)]
       [(lit ''a.txt'', lit ''c.txt'', 50, MILD_SIMILARITY)]"

definition demo_run :: "mode \<Rightarrow> run" where
  "demo_run m =
     \<lparr>mode_used = m, threshold_used = 1 / 2,
      loaded = [(lit ''a.txt'', 11), (lit ''c.txt'', 11)],
      printed = [WarningEmpty (lit ''b.txt''), SkippingUnsupported (lit ''notes.md'')],
      outcome = demo_report\<rparr>"

definition demo_bad_folder :: "pystr list" where
  "demo_bad_folder = [lit ''a.txt'', lit ''bad.pdf'', lit ''c.txt'']"

text \<open>
  A stand-in for the vectorizer, with two features, and the library that follows the
  spec on it.
\<close>

definition demo_vectorize :: "nat \<times> nat \<Rightarrow> pystr list \<Rightarrow> real list list" where
  "demo_vectorize ngram_range texts =
     map (\<lambda>t. if t = lit ''the cat sat'' then [3, 4] else [4, 3]) texts"

definition demo_spec_lib :: lib where
  "demo_spec_lib = demo_lib\<lparr>tfidf_cosine := spec_tfidf_cosine demo_vectorize\<rparr>"

section \<open>Properties\<close>

lemma labels_distinct:
  "HIGH_RISK \<noteq> MEDIUM_RISK" "HIGH_RISK \<noteq> MILD_SIMILARITY" "HIGH_RISK \<noteq> SAFE"
  "MEDIUM_RISK \<noteq> MILD_SIMILARITY" "MEDIUM_RISK \<noteq> SAFE" "MILD_SIMILARITY \<noteq> SAFE"
  by (simp_all add: HIGH_RISK_def MEDIUM_RISK_def MILD_SIMILARITY_def SAFE_def lit_def)

text \<open>
  Claim C3. For every score \<open>s\<close> between 0 and 100 the classifier returns the HIGH RISK
  label exactly when \<open>s \<ge> 85\<close>, MEDIUM RISK exactly when \<open>70 \<le> s < 85\<close>,
  MILD SIMILARITY exactly when \<open>50 \<le> s < 70\<close> and SAFE exactly when \<open>s < 50\<close>;
  the boundary values 85, 70 and 50 fall in the higher-risk bucket.
\<close>

theorem risk_level_thresholds:
  assumes "0 \<le> s" and "s \<le> 100"
  shows "(similarity_risk_level s = HIGH_RISK \<longleftrightarrow> s \<ge> 85)
       \<and> (similarity_risk_level s = MEDIUM_RISK \<longleftrightarrow> 70 \<le> s \<and> s < 85)
       \<and> (similarity_risk_level s = MILD_SIMILARITY \<longleftrightarrow> 50 \<le> s \<and> s < 70)
       \<and> (similarity_risk_level s = SAFE \<longleftrightarrow> s < 50)
       \<and> similarity_risk_level 85 = HIGH_RISK
       \<and> similarity_risk_level 70 = MEDIUM_RISK
       \<and> similarity_risk_level 50 = MILD_SIMILARITY"
  using labels_distinct by (auto simp: similarity_risk_level_def)

theorem risk_level_thresholds_witness:
  "(0::real) \<le> 84.999 \<and> (84.999::real) \<le> 100
   \<and> similarity_risk_level 84.999 = MEDIUM_RISK
   \<and> similarity_risk_level 84.999 \<noteq> HIGH_RISK
   \<and> similarity_risk_level 85 = HIGH_RISK"
proof -
  have a: "(0::real) \<le> 84.999" and b: "(84.999::real) \<le> 100" by simp_all
  show ?thesis
    using risk_level_thresholds [OF a b] by auto
qed

subsection \<open>The pair enumeration\<close>

lemma inner_loop_ok:
  "i < length M \<Longrightarrow> \<forall>j\<in>set js. j < length (M ! i) \<Longrightarrow>
   inner_loop files M i js acc = Inr (acc @ map (\<lambda>j. (files ! i, files ! j, M ! i ! j * 100)) js)"
  by (induction js arbitrary: acc) (simp_all add: mat_get_def)

lemma outer_loop_ok:
  "is_square (length files) M \<Longrightarrow> \<forall>i\<in>set is. i < length files \<Longrightarrow>
   outer_loop files M is acc =
     Inr (acc @ concat (map (\<lambda>i. map (\<lambda>j. (files ! i, files ! j, M ! i ! j * 100)) [Suc i ..< length files]) is))"
proof (induction "is" arbitrary: acc)
  case Nil
  then show ?case by simp
next
  case (Cons i "is")
  from Cons.prems have i: "i < length M" and row: "length (M ! i) = length files"
    by (auto simp: is_square_def list_all_length)
  have "inner_loop files M i [i + 1 ..< length files] acc
        = Inr (acc @ map (\<lambda>j. (files ! i, files ! j, M ! i ! j * 100)) [i + 1 ..< length files])"
    by (rule inner_loop_ok) (use i row in auto)
  with Cons show ?case by simp
qed

lemma pair_results_ok:
  "is_square (length files) M \<Longrightarrow>
   pair_results files M =
     Inr (map (\<lambda>(i, j). (files ! i, files ! j, M ! i ! j * 100)) (pair_indices (length files)))"
  by (simp add: pair_results_def outer_loop_ok pair_indices_def map_concat comp_def)

lemma set_pair_indices: "set (pair_indices n) = {(i, j). i < j \<and> j < n}"
  by (force simp: pair_indices_def)

lemma distinct_concat_Pair:
  "distinct is \<Longrightarrow> (\<And>i. distinct (f i)) \<Longrightarrow> distinct (concat (map (\<lambda>i. map (Pair i) (f i)) is))"
  by (induction "is") (auto simp: distinct_map inj_on_def)

lemma distinct_pair_indices: "distinct (pair_indices n)"
  unfolding pair_indices_def by (rule distinct_concat_Pair) simp_all

lemma length_pair_indices_sum: "length (pair_indices n) = (\<Sum>i<n. n - Suc i)"
  by (simp add: pair_indices_def length_concat comp_def sum_list_sum_nth atLeast0LessThan)

lemma sum_lessThan_nat: "(\<Sum>i<n. i) = n * (n - 1) div 2" for n :: nat
  using Sum_Ico_nat [of 0 n] by (simp add: lessThan_atLeast0)

lemma length_pair_indices: "length (pair_indices n) = n * (n - 1) div 2"
proof -
  have "(\<Sum>i<n. n - Suc i) = (\<Sum>i<n. i)"
    using sum.nat_diff_reindex [of "\<lambda>i. i" n] by simp
  then show ?thesis
    by (simp add: length_pair_indices_sum sum_lessThan_nat)
qed


lemma pair_indices_bounds: "(i, j) \<in> set (pair_indices n) \<Longrightarrow> i < n \<and> j < n"
  by (auto simp: set_pair_indices)

lemma unit_entry:
  "is_square n M \<Longrightarrow> entries_in_unit M \<Longrightarrow> i < n \<Longrightarrow> j < n \<Longrightarrow> 0 \<le> M ! i ! j \<and> M ! i ! j \<le> 1"
  by (simp add: is_square_def entries_in_unit_def list_all_length)

text \<open>
  Claim C2. For a corpus of \<open>n\<close> documents and its \<open>n \<times> n\<close> similarity matrix with
  entries in \<open>[0, 1]\<close>, the nested loop returns one result per index pair \<open>(i, j)\<close> with
  \<open>i < j < n\<close>, each pair exactly once, \<open>n (n - 1) / 2\<close> results in all, the result of
  \<open>(i, j)\<close> carrying the score \<open>M[i, j] * 100\<close>, and every score lies in \<open>[0, 100]\<close>.
\<close>

theorem pair_results_enumeration:
  assumes sq: "is_square (length files) M" and unit: "entries_in_unit M"
  shows "pair_results files M =
           Inr (map (\<lambda>(i, j). (files ! i, files ! j, M ! i ! j * 100))
                    (pair_indices (length files)))
       \<and> length (pair_indices (length files)) = length files * (length files - 1) div 2
       \<and> distinct (pair_indices (length files))
       \<and> set (pair_indices (length files)) = {(i, j). i < j \<and> j < length files}
       \<and> (\<forall>r \<in> set (map (\<lambda>(i, j). (files ! i, files ! j, M ! i ! j * 100))
                         (pair_indices (length files))).
             0 \<le> score r \<and> score r \<le> 100)"
proof -
  have "0 \<le> M ! i ! j * 100 \<and> M ! i ! j * 100 \<le> 100"
    if "(i, j) \<in> set (pair_indices (length files))" for i j
    using unit_entry [OF sq unit, of i j] pair_indices_bounds [OF that] by simp
  then have "\<forall>r \<in> set (map (\<lambda>(i, j). (files ! i, files ! j, M ! i ! j * 100))
                         (pair_indices (length files))).
             0 \<le> score r \<and> score r \<le> 100"
    by (auto simp: score_def)
  then show ?thesis
    using pair_results_ok [OF sq] length_pair_indices distinct_pair_indices set_pair_indices
    by blast
qed

theorem pair_results_enumeration_witness:
  "is_square (length demo_files) demo_matrix \<and> entries_in_unit demo_matrix
   \<and> pair_results demo_files demo_matrix =
       Inr [(lit ''a.txt'', lit ''b.txt'', 50), (lit ''a.txt'', lit ''c.txt'', 25),
            (lit ''b.txt'', lit ''c.txt'', 0)]
   \<and> length (pair_indices (length demo_files)) = 3"
proof -
  have sq: "is_square (length demo_files) demo_matrix"
    by (simp add: is_square_def demo_files_def demo_matrix_def)
  have unit: "entries_in_unit demo_matrix"
    by (simp add: entries_in_unit_def demo_matrix_def)
  have idx: "pair_indices (length demo_files) = [(0, 1), (0, 2), (1, 2)]"
    by (simp add: pair_indices_def demo_files_def upt_rec)
  show ?thesis
    using pair_results_enumeration [OF sq unit] sq unit
    by (simp add: idx) (simp add: demo_files_def demo_matrix_def)
qed

subsection \<open>The sort of the report\<close>

lemma sorted_desc_rev: "sorted_desc key xs \<longleftrightarrow> sorted (map key (rev xs))"
  by (simp add: sorted_desc_def sorted_map sorted_wrt_rev)

lemma py_sort_reverse_sorted: "sorted_desc key (py_sort_reverse key xs)"
  by (simp add: sorted_desc_rev py_sort_reverse_def)

lemma py_sort_reverse_mset: "mset (py_sort_reverse key xs) = mset xs"
  by (simp add: py_sort_reverse_def)

lemma py_sort_reverse_stable:
  "filter (\<lambda>x. key x = k) (py_sort_reverse key xs) = filter (\<lambda>x. key x = k) xs"
  by (simp add: py_sort_reverse_def rev_filter [symmetric] sort_key_stable)

lemma py_sort_reverse_unique:
  assumes "mset ys = mset xs" and "sorted_desc key ys"
    and "\<And>k. filter (\<lambda>x. key x = k) ys = filter (\<lambda>x. key x = k) xs"
  shows "py_sort_reverse key xs = ys"
proof -
  have "sort_key key (rev xs) = rev ys"
  proof (rule properties_for_sort_key)
    show "mset (rev ys) = mset (rev xs)" using assms(1) by simp
    show "sorted (map key (rev ys))" using assms(2) by (simp add: sorted_desc_rev)
    show "filter (\<lambda>x. key k = key x) (rev ys) = filter (\<lambda>x. key k = key x) (rev xs)" for k
      using assms(3) [of "key k"] by (simp add: rev_filter [symmetric] eq_commute)
  qed
  then show ?thesis by (simp add: py_sort_reverse_def)
qed

text \<open>
  Claim C4. The sort of the report puts the results in descending order of score, keeps
  the results of equal score in the order of the enumeration (it is stable), and its
  output is determined by its input: it is the only descending, stable rearrangement.
\<close>

theorem report_sort_descending_stable:
  "sorted_desc score (py_sort_reverse score results)
   \<and> mset (py_sort_reverse score results) = mset results
   \<and> (\<forall>k. filter (\<lambda>r. score r = k) (py_sort_reverse score results)
            = filter (\<lambda>r. score r = k) results)
   \<and> (\<forall>ys. mset ys = mset results \<and> sorted_desc score ys
            \<and> (\<forall>k. filter (\<lambda>r. score r = k) ys = filter (\<lambda>r. score r = k) results)
          \<longrightarrow> ys = py_sort_reverse score results)"
  using py_sort_reverse_sorted [of score results] py_sort_reverse_mset [of score results]
    py_sort_reverse_stable [of score _ results] py_sort_reverse_unique [of _ results score]
  by metis

theorem report_sort_descending_stable_witness:
  "py_sort_reverse score demo_results = demo_sorted
   \<and> map score (py_sort_reverse score demo_results) = [90, 90, 30, 10]"
proof -
  have m: "mset demo_sorted = mset demo_results"
    by (simp add: demo_sorted_def demo_results_def)
  have s: "sorted_desc score demo_sorted"
    by (simp add: sorted_desc_def demo_sorted_def score_def)
  have f: "\<forall>k. filter (\<lambda>r. score r = k) demo_sorted = filter (\<lambda>r. score r = k) demo_results"
    by (simp add: demo_sorted_def demo_results_def score_def)
  have eq: "py_sort_reverse score demo_results = demo_sorted"
    using report_sort_descending_stable [of demo_results] m s f by metis
  show ?thesis
    unfolding eq by (simp add: demo_sorted_def score_def)
qed

subsection \<open>The summary statistics\<close>

lemma sorted_desc_hd_max:
  assumes "results \<noteq> []" and "sorted_desc key results"
  shows "key (hd results) = Max (key ` set results)"
proof -
  obtain x xs where r: "results = x # xs" using assms(1) by (cases results) auto
  with assms(2) have "\<forall>y\<in>set xs. key y \<le> key x" by (simp add: sorted_desc_def)
  then show ?thesis unfolding r by (intro Max_eqI [symmetric]) auto
qed

lemma sorted_desc_last_min:
  assumes "results \<noteq> []" and "sorted_desc key results"
  shows "key (last results) = Min (key ` set results)"
proof -
  obtain x xs where r: "rev results = x # xs" using assms(1) by (cases "rev results") auto
  from assms(2) have "sorted (map key (rev results))" by (simp add: sorted_desc_rev)
  with r have le: "\<forall>y\<in>set xs. key x \<le> key y" by simp
  have l: "last results = x" using r by (metis last_rev list.sel(1) rev_rev_ident)
  have s: "set results = insert x (set xs)" using r by (metis list.simps(15) set_rev)
  show ?thesis unfolding l s using le by (intro Min_eqI [symmetric]) auto
qed

text \<open>
  Claim C5. On a non-empty list of results sorted in descending order the aggregator
  reports the first element as highest, which has the maximum score, the last element as
  lowest, which has the minimum score, and the arithmetic mean of the scores as average.
  The scores 20, 60 and 100 give the average 60, the highest score 100 and the lowest 20.
\<close>

theorem aggregate_sorted:
  assumes "results \<noteq> []" and "sorted_desc score results"
  shows "aggregate n results =
           Inr \<lparr>total_documents = n, total_comparisons = length results,
                highest = hd results, lowest = last results,
                average = sum_list (map score results) / real (length results)\<rparr>
       \<and> score (hd results) = Max (score ` set results)
       \<and> score (last results) = Min (score ` set results)"
proof -
  from assms(1) have "aggregate n results =
           Inr \<lparr>total_documents = n, total_comparisons = length results,
                highest = hd results, lowest = last results,
                average = sum_list (map score results) / real (length results)\<rparr>"
    by (cases results) (simp_all add: aggregate_def py_first_def py_last_def py_div_def)
  then show ?thesis
    using sorted_desc_hd_max [OF assms] sorted_desc_last_min [OF assms] by simp
qed

theorem aggregate_sorted_witness:
  "py_sort_reverse score demo_three \<noteq> []
   \<and> sorted_desc score (py_sort_reverse score demo_three)
   \<and> aggregate 3 (py_sort_reverse score demo_three) =
       Inr \<lparr>total_documents = 3, total_comparisons = 3,
            highest = (lit ''b'', lit ''c'', 100), lowest = (lit ''a'', lit ''b'', 20),
            average = 60\<rparr>"
proof -
  have eq: "py_sort_reverse score demo_three =
     [(lit ''b'', lit ''c'', 100), (lit ''a'', lit ''c'', 60), (lit ''a'', lit ''b'', 20)]"
    by (simp add: py_sort_reverse_def demo_three_def score_def)
  have ne: "py_sort_reverse score demo_three \<noteq> []" by (simp add: eq)
  have sd: "sorted_desc score (py_sort_reverse score demo_three)"
    by (simp add: eq sorted_desc_def score_def)
  show ?thesis
    using aggregate_sorted [OF ne sd, of 3] ne sd by (simp add: eq score_def)
qed

subsection \<open>A single document\<close>

lemma inner_loop_Inr:
  "inner_loop files M i js acc = Inr r \<Longrightarrow>
   r = acc @ map (\<lambda>j. (files ! i, files ! j, M ! i ! j * 100)) js"
  by (induction js arbitrary: acc) (fastforce simp: mat_get_def split: if_splits)+

lemma inner_loop_Inl: "inner_loop files M i js acc = Inl e \<Longrightarrow> e = IndexError"
  by (induction js arbitrary: acc) (auto simp: mat_get_def split: if_splits)

lemma outer_loop_Inr:
  "outer_loop files M is acc = Inr r \<Longrightarrow>
   r = acc @ concat (map (\<lambda>i. map (\<lambda>j. (files ! i, files ! j, M ! i ! j * 100))
                                  [Suc i ..< length files]) is)"
proof (induction "is" arbitrary: acc)
  case Nil
  then show ?case by simp
next
  case (Cons i "is")
  from Cons.prems obtain r' where
    1: "inner_loop files M i [i + 1 ..< length files] acc = Inr r'"
    and 2: "outer_loop files M is r' = Inr r"
    by (auto split: sum.splits)
  show ?case
    using inner_loop_Inr [OF 1] Cons.IH [OF 2] by simp
qed

lemma outer_loop_Inl: "outer_loop files M is acc = Inl e \<Longrightarrow> e = IndexError"
  by (induction "is" arbitrary: acc) (auto split: sum.splits dest: inner_loop_Inl)

lemma pair_results_Inr:
  "pair_results files M = Inr rs \<Longrightarrow>
   rs = map (\<lambda>(i, j). (files ! i, files ! j, M ! i ! j * 100)) (pair_indices (length files))"
  by (auto simp: pair_results_def pair_indices_def map_concat comp_def dest!: outer_loop_Inr)

lemma pair_results_Inl: "pair_results files M = Inl e \<Longrightarrow> e = IndexError"
  by (auto simp: pair_results_def dest: outer_loop_Inl)

lemma pair_results_length:
  "pair_results files M = Inr rs \<Longrightarrow> length rs = length files * (length files - 1) div 2"
  by (auto dest!: pair_results_Inr simp: length_pair_indices)

lemma aggregate_nonempty:
  "results \<noteq> [] \<Longrightarrow> \<exists>stats. aggregate n results = Inr stats"
  by (cases results) (simp_all add: aggregate_def py_first_def py_last_def py_div_def)

lemma py_sort_reverse_Nil [simp]: "py_sort_reverse key xs = [] \<longleftrightarrow> xs = []"
  by (metis length_0_conv length_rev length_sort py_sort_reverse_def)

lemma generate_report_no_zero_division:
  "generate_report files M threshold \<noteq> Inl ZeroDivisionError"
proof (cases "pair_results files M")
  case (Inl e)
  then show ?thesis by (auto simp: generate_report_def dest: pair_results_Inl)
next
  case (Inr rs)
  show ?thesis
  proof (cases "rs = []")
    case True
    with Inr show ?thesis by (simp add: generate_report_def)
  next
    case False
    then obtain stats where "aggregate (length files) (py_sort_reverse score rs) = Inr stats"
      using aggregate_nonempty [of "py_sort_reverse score rs"] by auto
    with Inr False show ?thesis by (simp add: generate_report_def Let_def)
  qed
qed

lemma pair_results_single: "pair_results [f] M = Inr []"
  by (simp add: pair_results_def)

lemma upload_loop_lengths:
  "upload_loop L fs (texts, names, out) = Inr (texts', names', out') \<Longrightarrow>
   length texts = length names \<Longrightarrow> length texts' = length names'"
  by (induction fs arbitrary: texts names out) (auto split: sum.splits if_splits)

lemma two_pairs_nonempty:
  assumes "pair_results names M = Inr results" and "2 \<le> length names"
  shows "results \<noteq> []"
proof -
  have "2 * 1 \<le> length names * (length names - 1)"
    using assms(2) by (intro mult_le_mono) auto
  then have "0 < length names * (length names - 1) div 2" by simp
  then show ?thesis using pair_results_length [OF assms(1)] by auto
qed

lemma generate_report_single: "generate_report [f] M threshold = Inr NoPairs"
  by (simp add: generate_report_def pair_results_single)

text \<open>
  Claim C6. With exactly one valid document there is no pair: \<open>generate_report\<close> returns
  its "no document pairs" outcome instead of statistics, whatever the matrix, and so does
  \<open>main\<close> once the library has returned a matrix; the page reports that there are not
  enough valid documents. \<open>generate_report\<close> never raises \<open>ZeroDivisionError\<close>, and the
  aggregator of the page, reached with two texts or more, returns its statistics.
\<close>

theorem single_document_nothing_to_compare:
  "pair_results [f] M = Inr []
   \<and> generate_report [f] M threshold = Inr NoPairs
   \<and> generate_report files M' threshold' \<noteq> Inl ZeroDivisionError
   \<and> (load_documents L folder = Inr ([f], [t], out)
        \<and> snd (choose_similarity L (py_strip mode_input) [t]) = Inr M
      \<longrightarrow> main L mode_input threshold_input folder =
            Inr \<lparr>mode_used = fst (choose_similarity L (py_strip mode_input) [t]),
                 threshold_used = read_threshold L threshold_input,
                 loaded = [(f, length t)], printed = out, outcome = NoPairs\<rparr>)
   \<and> (2 \<le> length uploaded \<and> upload_loop L' uploaded ([], [], []) = Inr ([t'], [f'], out')
      \<longrightarrow> run_analysis L' enhanced threshold'' uploaded = Inr (NotEnoughValid out'))
   \<and> (upload_loop L' uploaded ([], [], []) = Inr (texts, names, out') \<and> 2 \<le> length texts
        \<and> pair_results names M'' = Inr results
      \<longrightarrow> (\<exists>stats. aggregate (length names) (py_sort_reverse score results) = Inr stats))"
proof -
  note a = generate_report_single
  have b: "main L mode_input threshold_input folder =
            Inr \<lparr>mode_used = fst (choose_similarity L (py_strip mode_input) [t]),
                 threshold_used = read_threshold L threshold_input,
                 loaded = [(f, length t)], printed = out, outcome = NoPairs\<rparr>"
    if "load_documents L folder = Inr ([f], [t], out)"
      and "snd (choose_similarity L (py_strip mode_input) [t]) = Inr M"
    using that by (cases "choose_similarity L (py_strip mode_input) [t]") (simp add: main_def Let_def generate_report_single)
  have c: "run_analysis L' enhanced threshold'' uploaded = Inr (NotEnoughValid out')"
    if "2 \<le> length uploaded" and "upload_loop L' uploaded ([], [], []) = Inr ([t'], [f'], out')"
    using that by (auto simp: run_analysis_def)
  have d: "\<exists>stats. aggregate (length names) (py_sort_reverse score results) = Inr stats"
    if "upload_loop L' uploaded ([], [], []) = Inr (texts, names, out')" and "2 \<le> length texts"
      and "pair_results names M'' = Inr results"
  proof -
    have "length texts = length names" using upload_loop_lengths [OF that(1)] by simp
    then have "results \<noteq> []" using two_pairs_nonempty [OF that(3)] that(2) by simp
    then show ?thesis by (intro aggregate_nonempty) simp
  qed
  show ?thesis
    using a b c d pair_results_single generate_report_no_zero_division by blast
qed

lemmas demo_simps = demo_lib_def extract_by_suffix_def extract_text_def suffix_def rfind_def
  endswith_def py_lower_def py_strip_def py_isspace_def lit_def pdf_text_def

theorem single_document_nothing_to_compare_witness:
  "main demo_lib (lit ''1'') (lit ''80'')
        (Some [lit ''a.txt'', lit ''b.txt'', lit ''notes.md'']) =
     Inr \<lparr>mode_used = Standard, threshold_used = 4 / 5,
          loaded = [(lit ''a.txt'', 11)],
          printed = [WarningEmpty (lit ''b.txt''), SkippingUnsupported (lit ''notes.md'')],
          outcome = NoPairs\<rparr>
   \<and> run_analysis demo_lib False 50 [lit ''a.txt'', lit ''b.txt''] =
       Inr (NotEnoughValid [CouldNotProcess (lit ''b.txt'')])
   \<and> upload_loop demo_lib [lit ''a.txt'', lit ''c.txt''] ([], [], []) =
       Inr ([lit ''the cat sat'', lit ''the cat ran''], [lit ''a.txt'', lit ''c.txt''], [])
   \<and> pair_results [lit ''a.txt'', lit ''c.txt''] [[1, 1 / 2], [1 / 2, 1]] =
       Inr [(lit ''a.txt'', lit ''c.txt'', 50)]
   \<and> aggregate (length [lit ''a.txt'', lit ''c.txt''])
         (py_sort_reverse score [(lit ''a.txt'', lit ''c.txt'', 50)])
       \<noteq> Inl ZeroDivisionError"
proof -
  have ld: "load_documents demo_lib (Some [lit ''a.txt'', lit ''b.txt'', lit ''notes.md''])
     = Inr ([lit ''a.txt''], [lit ''the cat sat''],
            [WarningEmpty (lit ''b.txt''), SkippingUnsupported (lit ''notes.md'')])"
    by (simp add: load_documents_def demo_simps)
  have cs: "choose_similarity demo_lib (py_strip (lit ''1'')) [lit ''the cat sat'']
     = (Standard, Inr [[1]])"
    by (simp add: choose_similarity_def compute_similarity_matrix_def
          compute_semantic_similarity_def demo_simps)
  have ul: "upload_loop demo_lib [lit ''a.txt'', lit ''b.txt''] ([], [], [])
     = Inr ([lit ''the cat sat''], [lit ''a.txt''], [CouldNotProcess (lit ''b.txt'')])"
    by (simp add: demo_simps)
  have th: "read_threshold demo_lib (lit ''80'') = 4 / 5"
    by (simp add: read_threshold_def demo_simps)
  have len: "length (lit ''the cat sat'') = 11" by (simp add: lit_def)
  have one: "main demo_lib (lit ''1'') (lit ''80'')
        (Some [lit ''a.txt'', lit ''b.txt'', lit ''notes.md'']) =
     Inr \<lparr>mode_used = Standard, threshold_used = 4 / 5,
          loaded = [(lit ''a.txt'', 11)],
          printed = [WarningEmpty (lit ''b.txt''), SkippingUnsupported (lit ''notes.md'')],
          outcome = NoPairs\<rparr>
   \<and> run_analysis demo_lib False 50 [lit ''a.txt'', lit ''b.txt''] =
       Inr (NotEnoughValid [CouldNotProcess (lit ''b.txt'')])"
    using single_document_nothing_to_compare
      [where L = demo_lib and folder = "Some [lit ''a.txt'', lit ''b.txt'', lit ''notes.md'']"
         and f = "lit ''a.txt''" and t = "lit ''the cat sat''"
         and out = "[WarningEmpty (lit ''b.txt''), SkippingUnsupported (lit ''notes.md'')]"
         and mode_input = "lit ''1''" and threshold_input = "lit ''80''" and M = "[[1]]"
         and L' = demo_lib and uploaded = "[lit ''a.txt'', lit ''b.txt'']"
         and t' = "lit ''the cat sat''" and f' = "lit ''a.txt''"
         and out' = "[CouldNotProcess (lit ''b.txt'')]"
         and enhanced = False and threshold'' = 50]
    unfolding ld cs ul th len by simp
  have ul2: "upload_loop demo_lib [lit ''a.txt'', lit ''c.txt''] ([], [], []) =
       Inr ([lit ''the cat sat'', lit ''the cat ran''], [lit ''a.txt'', lit ''c.txt''], [])"
    by (simp add: demo_simps)
  have pr: "pair_results [lit ''a.txt'', lit ''c.txt''] [[1, 1 / 2], [1 / 2, 1]] =
       Inr [(lit ''a.txt'', lit ''c.txt'', 50)]"
    by (simp add: pair_results_def mat_get_def upt_rec)
  have two: "2 \<le> length [lit ''the cat sat'', lit ''the cat ran'']" by simp
  have "\<exists>stats. aggregate (length [lit ''a.txt'', lit ''c.txt''])
                  (py_sort_reverse score [(lit ''a.txt'', lit ''c.txt'', 50)]) = Inr stats"
    using single_document_nothing_to_compare
      [where L' = demo_lib and uploaded = "[lit ''a.txt'', lit ''c.txt'']"
         and texts = "[lit ''the cat sat'', lit ''the cat ran'']"
         and names = "[lit ''a.txt'', lit ''c.txt'']" and out' = "[]"
         and M'' = "[[1, 1 / 2], [1 / 2, 1]]"
         and results = "[(lit ''a.txt'', lit ''c.txt'', 50)]"]
      ul2 pr two
    by blast
  then have three: "aggregate (length [lit ''a.txt'', lit ''c.txt''])
         (py_sort_reverse score [(lit ''a.txt'', lit ''c.txt'', 50)])
       \<noteq> Inl ZeroDivisionError"
    by auto
  show ?thesis using one ul2 pr three by blast
qed

subsection \<open>The prompts of the command line\<close>

lemma strip_one: "py_strip (lit ''1'') = lit ''1''"
  by (simp add: demo_simps)

lemma one_not_two: "lit ''1'' \<noteq> lit ''2''"
  by (simp add: lit_def)

lemma main_standard:
  assumes "py_strip mode_input \<noteq> lit ''2''"
  shows "main L mode_input threshold_input folder = main L (lit ''1'') threshold_input folder"
proof -
  have h: "choose_similarity L (py_strip mode_input) texts = choose_similarity L (lit ''1'') texts"
    for texts
    using assms by (simp add: choose_similarity_def one_not_two)
  show ?thesis unfolding main_def Let_def strip_one h ..
qed

lemma main_mode_used:
  assumes "main L mode_input threshold_input folder = Inr r"
  shows "mode_used r = Standard \<longleftrightarrow> py_strip mode_input \<noteq> lit ''2''"
  using assms
  by (auto simp: main_def choose_similarity_def Let_def split: sum.splits if_splits prod.splits)

text \<open>
  Claim C10, as the code has it. The answer to the mode prompt is stripped of surrounding
  whitespace before the comparison: every answer whose stripped form is not \<open>2\<close>,
  the empty answer included, selects the standard mode with n-grams of length 1 to 3 and
  runs exactly as the answer \<open>1\<close> does; an answer whose stripped form is \<open>2\<close> selects
  the enhanced mode. The selection is a total function of the answer.
\<close>

theorem mode_selection_after_strip:
  "(py_strip mode_input \<noteq> lit ''2'' \<longrightarrow>
      choose_similarity L (py_strip mode_input) texts = (Standard, tfidf_cosine L (1, 3) texts)
      \<and> main L mode_input threshold_input folder = main L (lit ''1'') threshold_input folder)
   \<and> (py_strip mode_input = lit ''2'' \<longrightarrow>
      choose_similarity L (py_strip mode_input) texts = (Enhanced, tfidf_cosine L (1, 5) texts))
   \<and> (main L mode_input threshold_input folder = Inr r \<longrightarrow>
      (mode_used r = Standard \<longleftrightarrow> py_strip mode_input \<noteq> lit ''2''))"
  using main_standard [of mode_input L threshold_input folder]
    main_mode_used [of L mode_input threshold_input folder r]
  by (simp add: choose_similarity_def compute_similarity_matrix_def
        compute_semantic_similarity_def)

lemma demo_load:
  "load_documents demo_lib demo_folder =
     Inr ([lit ''a.txt'', lit ''c.txt''], [lit ''the cat sat'', lit ''the cat ran''],
          [WarningEmpty (lit ''b.txt''), SkippingUnsupported (lit ''notes.md'')])"
  by (simp add: load_documents_def demo_folder_def demo_simps)

lemma demo_generate:
  "generate_report [lit ''a.txt'', lit ''c.txt''] [[1, 1 / 2], [1 / 2, 1]] (1 / 2) = Inr demo_report"
  by (simp add: generate_report_def pair_results_def mat_get_def upt_rec py_sort_reverse_def
        aggregate_def py_first_def py_last_def py_div_def score_def make_row_def demo_report_def
        similarity_risk_level_def)

lemma demo_threshold: "read_threshold demo_lib (lit ''50'') = 1 / 2"
  by (simp add: read_threshold_def demo_simps)

lemma demo_standard:
  "choose_similarity demo_lib (py_strip (lit ''1'')) [lit ''the cat sat'', lit ''the cat ran'']
     = (Standard, Inr [[1, 1 / 2], [1 / 2, 1]])"
  by (simp add: choose_similarity_def compute_similarity_matrix_def demo_simps upt_rec)

lemma demo_enhanced:
  "choose_similarity demo_lib (py_strip (lit ''2 '')) [lit ''the cat sat'', lit ''the cat ran'']
     = (Enhanced, Inr [[1, 1 / 2], [1 / 2, 1]])"
  by (simp add: choose_similarity_def compute_semantic_similarity_def demo_simps upt_rec)

lemma demo_lengths: "length (lit ''the cat sat'') = 11" "length (lit ''the cat ran'') = 11"
  by (simp_all add: lit_def)

lemma demo_main_50: "main demo_lib (lit ''1'') (lit ''50'') demo_folder = Inr (demo_run Standard)"
  unfolding main_def Let_def demo_load demo_threshold
  by (simp add: demo_standard demo_generate demo_run_def demo_lengths)

lemma demo_main_2: "main demo_lib (lit ''2 '') (lit ''50'') demo_folder = Inr (demo_run Enhanced)"
  unfolding main_def Let_def demo_load demo_threshold
  by (simp add: demo_enhanced demo_generate demo_run_def demo_lengths)


theorem mode_selection_after_strip_witness:
  "py_strip (lit []) \<noteq> lit ''2''
   \<and> main demo_lib (lit []) (lit ''50'') demo_folder = Inr (demo_run Standard)
   \<and> mode_used (demo_run Standard) = Standard
   \<and> py_strip (lit ''2 '') = lit ''2''
   \<and> fst (choose_similarity demo_lib (py_strip (lit ''2 '')) [lit ''x'']) = Enhanced"
proof -
  have ne: "py_strip (lit []) \<noteq> lit ''2''" by (simp add: demo_simps)
  have "main demo_lib (lit []) (lit ''50'') demo_folder
        = main demo_lib (lit ''1'') (lit ''50'') demo_folder"
    using mode_selection_after_strip [of "lit []" demo_lib _ "lit ''50''" demo_folder] ne
    by blast
  then have m: "main demo_lib (lit []) (lit ''50'') demo_folder = Inr (demo_run Standard)"
    by (simp add: demo_main_50)
  have used: "mode_used (demo_run Standard) = Standard"
    using mode_selection_after_strip
      [of "lit []" demo_lib _ "lit ''50''" demo_folder "demo_run Standard"] m ne
    by blast
  have two: "py_strip (lit ''2 '') = lit ''2''" by (simp add: demo_simps)
  have "choose_similarity demo_lib (py_strip (lit ''2 '')) [lit ''x'']
        = (Enhanced, tfidf_cosine demo_lib (1, 5) [lit ''x''])"
    using mode_selection_after_strip [of "lit ''2 ''" demo_lib "[lit ''x'']"] two by blast
  then show ?thesis using ne m used two by simp
qed

text \<open>
  The answer \<open>2\<close> followed by a space is not the string \<open>2\<close>, and selects the
  enhanced mode.
\<close>

theorem mode_two_with_space_counterexample:
  "lit ''2 '' \<noteq> lit ''2''
   \<and> main demo_lib (lit ''2 '') (lit ''50'') demo_folder = Inr (demo_run Enhanced)
   \<and> mode_used (demo_run Enhanced) = Enhanced"
  by (simp add: demo_main_2 demo_run_def) (simp add: lit_def)

lemma read_threshold_default:
  "py_float L (py_strip threshold_input) = None \<Longrightarrow> read_threshold L threshold_input = 50 / 100"
  by (simp add: read_threshold_def)

lemma read_threshold_fifty:
  "py_float L (py_strip fifty) = Some 50 \<Longrightarrow> read_threshold L fifty = 50 / 100"
  by (simp add: read_threshold_def)

text \<open>
  Claim C8. When the answer to the threshold prompt does not parse as a number, the
  threshold is the default 50 percent and the run goes on exactly as if 50 had been typed.
\<close>

theorem invalid_threshold_falls_back:
  assumes "py_float L (py_strip threshold_input) = None"
  shows "read_threshold L threshold_input = 50 / 100
       \<and> (py_float L (py_strip fifty) = Some 50 \<longrightarrow>
            main L mode_input threshold_input folder = main L mode_input fifty folder)"
proof -
  have "main L mode_input threshold_input folder = main L mode_input fifty folder"
    if "py_float L (py_strip fifty) = Some 50"
    unfolding main_def read_threshold_default [OF assms] read_threshold_fifty [OF that] ..
  then show ?thesis using read_threshold_default [OF assms] by blast
qed

theorem invalid_threshold_falls_back_witness:
  "py_float demo_lib (py_strip (lit ''abc'')) = None
   \<and> read_threshold demo_lib (lit ''abc'') = 1 / 2
   \<and> main demo_lib (lit ''1'') (lit ''abc'') demo_folder = Inr (demo_run Standard)
   \<and> threshold_used (demo_run Standard) = 1 / 2"
proof -
  have none: "py_float demo_lib (py_strip (lit ''abc'')) = None" by (simp add: demo_simps)
  have some: "py_float demo_lib (py_strip (lit ''50'')) = Some 50" by (simp add: demo_simps)
  show ?thesis
    using invalid_threshold_falls_back [OF none, of "lit ''50''" "lit ''1''" demo_folder]
      none some
    by (simp add: demo_main_50 demo_run_def)
qed

subsection \<open>Loading documents\<close>

lemma load_loop_no_raise:
  "list_all (\<lambda>f. \<not> raises L f) fs \<Longrightarrow>
   load_loop L fs (texts, valid_files, out) =
     Inr (texts @ map (text_of L) (filter (is_valid L) fs),
          valid_files @ filter (is_valid L) fs,
          out @ concat (map (warning_of L) fs))"
proof (induction fs arbitrary: texts valid_files out)
  case Nil
  then show ?case by simp
next
  case (Cons f fs)
  then show ?case
    by (cases "extract_by_suffix L f")
       (auto simp: raises_def is_valid_def text_of_def warning_of_def split: option.splits)
qed

lemma load_loop_raise:
  "list_all (\<lambda>f. \<not> raises L f) pre \<Longrightarrow> extract_by_suffix L f = Inl e \<Longrightarrow>
   load_loop L (pre @ f # post) (texts, valid_files, out) = Inl e"
proof (induction pre arbitrary: texts valid_files out)
  case Nil
  then show ?case by simp
next
  case (Cons g pre)
  then show ?case
    by (cases "extract_by_suffix L g") (auto simp: raises_def split: option.splits)
qed

lemma load_loop_Inr_no_raise:
  "load_loop L fs st = Inr st' \<Longrightarrow> list_all (\<lambda>f. \<not> raises L f) fs"
proof (induction fs arbitrary: st)
  case Nil
  then show ?case by simp
next
  case (Cons f fs)
  obtain texts valid_files out where st: "st = (texts, valid_files, out)" by (cases st) auto
  from Cons.prems show ?case unfolding st
    by (cases "extract_by_suffix L f")
       (auto simp: raises_def split: option.splits if_splits dest: Cons.IH)
qed

lemma upload_loop_no_raise:
  "list_all (\<lambda>f. \<not> upload_raises L f) fs \<Longrightarrow>
   upload_loop L fs (texts, names, out) =
     Inr (texts @ map (upload_text L) (filter (upload_valid L) fs),
          names @ filter (upload_valid L) fs,
          out @ map CouldNotProcess (filter (\<lambda>f. \<not> upload_valid L f) fs))"
proof (induction fs arbitrary: texts names out)
  case Nil
  then show ?case by simp
next
  case (Cons f fs)
  then show ?case
    by (cases "extract_text L f") (auto simp: upload_raises_def upload_valid_def upload_text_def)
qed

lemma upload_loop_raise:
  "list_all (\<lambda>f. \<not> upload_raises L f) pre \<Longrightarrow> extract_text L f = Inl e \<Longrightarrow>
   upload_loop L (pre @ f # post) (texts, names, out) = Inl e"
proof (induction pre arbitrary: texts names out)
  case Nil
  then show ?case by simp
next
  case (Cons g pre)
  then show ?case
    by (cases "extract_text L g") (auto simp: upload_raises_def)
qed

lemma unsupported_suffix:
  "py_lower (suffix f) \<noteq> lit ''.txt'' \<Longrightarrow> py_lower (suffix f) \<noteq> lit ''.pdf'' \<Longrightarrow>
   py_lower (suffix f) \<noteq> lit ''.docx'' \<Longrightarrow> extract_by_suffix L f = Inr None"
  by (simp add: extract_by_suffix_def)

lemma load_documents_no_raise:
  "list_all (\<lambda>f. \<not> raises L f) files \<Longrightarrow>
   load_documents L (Some files) =
     (if filter (is_valid L) files = [] then Inl ValueError
      else Inr (filter (is_valid L) files, map (text_of L) (filter (is_valid L) files),
                concat (map (warning_of L) files)))"
  by (simp add: load_documents_def load_loop_no_raise)

lemma load_documents_raise:
  "list_all (\<lambda>f. \<not> raises L f) pre \<Longrightarrow> extract_by_suffix L f = Inl e \<Longrightarrow>
   load_documents L (Some (pre @ f # post)) = Inl e"
  by (simp add: load_documents_def load_loop_raise)

lemma load_documents_Inr:
  assumes "load_documents L folder = Inr (valid_files, texts, out)"
  shows "\<exists>files. folder = Some files \<and> valid_files = filter (is_valid L) files
           \<and> texts = map (text_of L) valid_files \<and> valid_files \<noteq> []"
proof -
  from assms obtain files where f: "folder = Some files"
    by (cases folder) (auto simp: load_documents_def)
  from assms f obtain st where st: "load_loop L files ([], [], []) = Inr st"
    by (auto simp: load_documents_def split: sum.splits)
  have "list_all (\<lambda>f. \<not> raises L f) files" by (rule load_loop_Inr_no_raise [OF st])
  from load_documents_no_raise [OF this] assms f show ?thesis
    by (auto split: if_splits)
qed

lemma is_valid_extract:
  "is_valid L f \<Longrightarrow> extract_by_suffix L f = Inr (Some (text_of L f)) \<and> py_strip (text_of L f) \<noteq> []"
  by (auto simp: is_valid_def text_of_def split: sum.splits option.splits)


lemma main_Inr:
  assumes ld: "load_documents L folder = Inr (valid_files, texts, out)"
    and m: "main L mode_input threshold_input folder = Inr r"
  shows "(\<exists>M. snd (choose_similarity L (py_strip mode_input) texts) = Inr M
             \<and> generate_report valid_files M (read_threshold L threshold_input) = Inr (outcome r))
       \<and> loaded r = map (\<lambda>(f, t). (f, length t)) (zip valid_files texts)"
  using m unfolding main_def Let_def ld
  by (auto split: sum.splits prod.splits)

text \<open>
  Claim C9. The two lists returned by \<open>load_documents\<close> have the same length and are
  aligned: \<open>texts[i]\<close> is the text extracted from \<open>valid_files[i]\<close> and is not
  empty after stripping. \<open>main\<close> computes the matrix from \<open>texts\<close> and reports it with
  \<open>valid_files\<close>, and the result of the pair \<open>(i, j)\<close> carries the names of
  \<open>valid_files[i]\<close> and \<open>valid_files[j]\<close> with the entry \<open>M[i, j]\<close>.
\<close>

theorem load_documents_aligned:
  assumes "load_documents L folder = Inr (valid_files, texts, out)"
  shows "length texts = length valid_files
       \<and> (\<forall>i < length valid_files.
             extract_by_suffix L (valid_files ! i) = Inr (Some (texts ! i))
             \<and> py_strip (texts ! i) \<noteq> [])
       \<and> (main L mode_input threshold_input folder = Inr r \<longrightarrow>
            (\<exists>M. snd (choose_similarity L (py_strip mode_input) texts) = Inr M
                 \<and> generate_report valid_files M (read_threshold L threshold_input)
                     = Inr (outcome r))
            \<and> loaded r = map (\<lambda>(f, t). (f, length t)) (zip valid_files texts))
       \<and> (pair_results valid_files M = Inr rs \<longrightarrow>
            rs = map (\<lambda>(i, j). (valid_files ! i, valid_files ! j, M ! i ! j * 100))
                     (pair_indices (length valid_files)))"
proof -
  from load_documents_Inr [OF assms] obtain files where
    v: "valid_files = filter (is_valid L) files" and t: "texts = map (text_of L) valid_files"
    by blast
  have len: "length texts = length valid_files" by (simp add: t)
  have al: "extract_by_suffix L (valid_files ! i) = Inr (Some (texts ! i))
            \<and> py_strip (texts ! i) \<noteq> []" if "i < length valid_files" for i
  proof -
    have "valid_files ! i \<in> set (filter (is_valid L) files)"
      using that v nth_mem by metis
    then have "is_valid L (valid_files ! i)" by simp
    from is_valid_extract [OF this] show ?thesis using that by (simp add: t)
  qed
  show ?thesis
    using len al main_Inr [OF assms] pair_results_Inr by blast
qed

theorem load_documents_aligned_witness:
  "load_documents demo_lib demo_folder =
     Inr ([lit ''a.txt'', lit ''c.txt''], [lit ''the cat sat'', lit ''the cat ran''],
          [WarningEmpty (lit ''b.txt''), SkippingUnsupported (lit ''notes.md'')])
   \<and> extract_by_suffix demo_lib (lit ''c.txt'') = Inr (Some (lit ''the cat ran''))
   \<and> py_strip (lit ''the cat ran'') \<noteq> []
   \<and> pair_results [lit ''a.txt'', lit ''c.txt''] [[1, 1 / 2], [1 / 2, 1]]
       = Inr [(lit ''a.txt'', lit ''c.txt'', 50)]
   \<and> main demo_lib (lit ''1'') (lit ''50'') demo_folder = Inr (demo_run Standard)
   \<and> generate_report [lit ''a.txt'', lit ''c.txt''] [[1, 1 / 2], [1 / 2, 1]]
         (read_threshold demo_lib (lit ''50'')) = Inr (outcome (demo_run Standard))
   \<and> loaded (demo_run Standard) = [(lit ''a.txt'', 11), (lit ''c.txt'', 11)]"
proof -
  have pr: "pair_results [lit ''a.txt'', lit ''c.txt''] [[1, 1 / 2], [1 / 2, 1]]
       = Inr [(lit ''a.txt'', lit ''c.txt'', 50)]"
    by (simp add: pair_results_def mat_get_def upt_rec)
  have mn: "(\<exists>M. snd (choose_similarity demo_lib (py_strip (lit ''1''))
                     [lit ''the cat sat'', lit ''the cat ran'']) = Inr M
              \<and> generate_report [lit ''a.txt'', lit ''c.txt''] M
                    (read_threshold demo_lib (lit ''50'')) = Inr (outcome (demo_run Standard)))
            \<and> loaded (demo_run Standard)
                = map (\<lambda>(f, t). (f, length t))
                      (zip [lit ''a.txt'', lit ''c.txt'']
                           [lit ''the cat sat'', lit ''the cat ran''])"
    using load_documents_aligned
      [OF demo_load, of "lit ''1''" "lit ''50''" "demo_run Standard"] demo_main_50
    by blast
  then have gr: "generate_report [lit ''a.txt'', lit ''c.txt''] [[1, 1 / 2], [1 / 2, 1]]
         (read_threshold demo_lib (lit ''50'')) = Inr (outcome (demo_run Standard))"
    by (simp add: demo_standard)
  have lo: "loaded (demo_run Standard) = [(lit ''a.txt'', 11), (lit ''c.txt'', 11)]"
    using mn by (simp add: demo_lengths)
  have one: "(1::nat) < length [lit ''a.txt'', lit ''c.txt'']" by simp
  have "extract_by_suffix demo_lib ([lit ''a.txt'', lit ''c.txt''] ! 1)
          = Inr (Some ([lit ''the cat sat'', lit ''the cat ran''] ! 1))
        \<and> py_strip ([lit ''the cat sat'', lit ''the cat ran''] ! 1) \<noteq> []"
    using load_documents_aligned [OF demo_load] one by blast
  then show ?thesis using demo_load pr demo_main_50 gr lo by simp
qed

text \<open>
  Claim C1, as the code has it. As long as no reader raises, the loading loop keeps exactly
  the documents with a supported extension and a text that is not blank, in order, and
  prints one line for every other document: a document with an unsupported extension or
  with an empty or whitespace-only text is left out with its warning and the loop goes on
  (\<open>load_documents\<close> raises \<open>ValueError\<close> only when no document is kept). An
  exception raised while reading a document is not caught: it ends the loading. The same
  holds for the loop over the uploaded files.
\<close>

theorem skipped_documents_do_not_stop_loading:
  "(list_all (\<lambda>f. \<not> raises L f) files \<longrightarrow>
      load_documents L (Some files) =
        (if filter (is_valid L) files = [] then Inl ValueError
         else Inr (filter (is_valid L) files, map (text_of L) (filter (is_valid L) files),
                   concat (map (warning_of L) files))))
   \<and> (py_lower (suffix f) \<noteq> lit ''.txt'' \<and> py_lower (suffix f) \<noteq> lit ''.pdf''
        \<and> py_lower (suffix f) \<noteq> lit ''.docx''
      \<longrightarrow> \<not> raises L f \<and> \<not> is_valid L f \<and> warning_of L f = [SkippingUnsupported f])
   \<and> (extract_by_suffix L f = Inr (Some text) \<and> py_strip text = []
      \<longrightarrow> \<not> raises L f \<and> \<not> is_valid L f \<and> warning_of L f = [WarningEmpty f])
   \<and> (is_valid L f \<longrightarrow> warning_of L f = [])
   \<and> (list_all (\<lambda>f. \<not> raises L f) pre \<and> extract_by_suffix L f = Inl e
      \<longrightarrow> load_documents L (Some (pre @ f # post)) = Inl e)
   \<and> (list_all (\<lambda>f. \<not> upload_raises L f) uploaded \<longrightarrow>
        upload_loop L uploaded ([], [], []) =
          Inr (map (upload_text L) (filter (upload_valid L) uploaded),
               filter (upload_valid L) uploaded,
               map CouldNotProcess (filter (\<lambda>f. \<not> upload_valid L f) uploaded)))
   \<and> (list_all (\<lambda>f. \<not> upload_raises L f) pre' \<and> extract_text L f = Inl e
      \<longrightarrow> upload_loop L (pre' @ f # post') ([], [], []) = Inl e)"
proof -
  have a: "\<not> raises L f \<and> \<not> is_valid L f \<and> warning_of L f = [SkippingUnsupported f]"
    if "py_lower (suffix f) \<noteq> lit ''.txt''" "py_lower (suffix f) \<noteq> lit ''.pdf''"
       "py_lower (suffix f) \<noteq> lit ''.docx''"
    using unsupported_suffix [OF that, of L]
    by (simp add: raises_def is_valid_def warning_of_def)
  have b: "\<not> raises L f \<and> \<not> is_valid L f \<and> warning_of L f = [WarningEmpty f]"
    if "extract_by_suffix L f = Inr (Some text)" "py_strip text = []"
    using that by (simp add: raises_def is_valid_def warning_of_def)
  have c: "warning_of L f = []" if "is_valid L f"
    using that by (auto simp: is_valid_def warning_of_def split: sum.splits option.splits)
  show ?thesis
    using a b c load_documents_no_raise [of L files] load_documents_raise [of L pre f e post]
      upload_loop_no_raise [of L uploaded "[]" "[]" "[]"]
      upload_loop_raise [of L pre' f e post' "[]" "[]" "[]"]
    by simp
qed

text \<open>
  An unreadable PDF between two good text files: the loading, and with it the whole run,
  ends with the reader's exception, in both entry points.
\<close>

theorem corrupted_document_aborts_counterexample:
  "extract_by_suffix demo_lib (lit ''bad.pdf'') = Inl ReadError
   \<and> load_documents demo_lib (Some demo_bad_folder) = Inl ReadError
   \<and> main demo_lib (lit ''1'') (lit ''50'') (Some demo_bad_folder) = Inl ReadError
   \<and> run_analysis demo_lib False 50 demo_bad_folder = Inl ReadError"
proof -
  have ld: "load_documents demo_lib (Some demo_bad_folder) = Inl ReadError"
    by (simp add: load_documents_def demo_bad_folder_def demo_simps)
  have ul: "upload_loop demo_lib demo_bad_folder ([], [], []) = Inl ReadError"
    by (simp add: demo_bad_folder_def demo_simps)
  have len: "length demo_bad_folder = 3" by (simp add: demo_bad_folder_def)
  have ne: "demo_bad_folder \<noteq> []" by (simp add: demo_bad_folder_def)
  show ?thesis
    by (simp add: ld main_def run_analysis_def ul len ne) (simp add: demo_simps)
qed


theorem skipped_documents_do_not_stop_loading_witness:
  "list_all (\<lambda>f. \<not> raises demo_lib f)
     [lit ''a.txt'', lit ''b.txt'', lit ''c.txt'', lit ''notes.md'']
   \<and> load_documents demo_lib
        (Some [lit ''a.txt'', lit ''b.txt'', lit ''c.txt'', lit ''notes.md'']) =
       Inr ([lit ''a.txt'', lit ''c.txt''], [lit ''the cat sat'', lit ''the cat ran''],
            [WarningEmpty (lit ''b.txt''), SkippingUnsupported (lit ''notes.md'')])
   \<and> warning_of demo_lib (lit ''notes.md'') = [SkippingUnsupported (lit ''notes.md'')]
   \<and> warning_of demo_lib (lit ''b.txt'') = [WarningEmpty (lit ''b.txt'')]
   \<and> load_documents demo_lib (Some ([lit ''a.txt''] @ lit ''bad.pdf'' # [lit ''c.txt'']))
       = Inl ReadError
   \<and> upload_loop demo_lib [lit ''a.txt'', lit ''b.txt'', lit ''c.txt''] ([], [], []) =
       Inr ([lit ''the cat sat'', lit ''the cat ran''], [lit ''a.txt'', lit ''c.txt''],
            [CouldNotProcess (lit ''b.txt'')])
   \<and> is_valid demo_lib (lit ''a.txt'') \<and> warning_of demo_lib (lit ''a.txt'') = []
   \<and> upload_loop demo_lib ([lit ''a.txt''] @ lit ''bad.pdf'' # [lit ''c.txt'']) ([], [], [])
       = Inl ReadError"
proof -
  let ?files = "[lit ''a.txt'', lit ''b.txt'', lit ''c.txt'', lit ''notes.md'']"
  let ?up = "[lit ''a.txt'', lit ''b.txt'', lit ''c.txt'']"
  have nr: "list_all (\<lambda>f. \<not> raises demo_lib f) ?files"
    by (simp add: raises_def demo_simps)
  have fv: "filter (is_valid demo_lib) ?files = [lit ''a.txt'', lit ''c.txt'']"
    by (simp add: is_valid_def demo_simps)
  have tx: "map (text_of demo_lib) [lit ''a.txt'', lit ''c.txt'']
              = [lit ''the cat sat'', lit ''the cat ran'']"
    by (simp add: text_of_def demo_simps)
  have wn: "concat (map (warning_of demo_lib) ?files)
              = [WarningEmpty (lit ''b.txt''), SkippingUnsupported (lit ''notes.md'')]"
    by (simp add: warning_of_def demo_simps)
  have 1: "load_documents demo_lib (Some ?files) =
       Inr ([lit ''a.txt'', lit ''c.txt''], [lit ''the cat sat'', lit ''the cat ran''],
            [WarningEmpty (lit ''b.txt''), SkippingUnsupported (lit ''notes.md'')])"
    using skipped_documents_do_not_stop_loading [of demo_lib ?files] nr
    unfolding fv tx wn by simp
  have sfx: "py_lower (suffix (lit ''notes.md'')) \<noteq> lit ''.txt''
      \<and> py_lower (suffix (lit ''notes.md'')) \<noteq> lit ''.pdf''
      \<and> py_lower (suffix (lit ''notes.md'')) \<noteq> lit ''.docx''"
    by (simp add: demo_simps)
  have 2: "warning_of demo_lib (lit ''notes.md'') = [SkippingUnsupported (lit ''notes.md'')]"
    using skipped_documents_do_not_stop_loading [of demo_lib _ "lit ''notes.md''"] sfx by blast
  have eb: "extract_by_suffix demo_lib (lit ''b.txt'') = Inr (Some (lit ''   ''))
      \<and> py_strip (lit ''   '') = []"
    by (simp add: demo_simps)
  have 3: "warning_of demo_lib (lit ''b.txt'') = [WarningEmpty (lit ''b.txt'')]"
    using skipped_documents_do_not_stop_loading [of demo_lib _ "lit ''b.txt''" "lit ''   ''"] eb
    by blast
  have pre: "list_all (\<lambda>f. \<not> raises demo_lib f) [lit ''a.txt'']"
    by (simp add: raises_def demo_simps)
  have bad: "extract_by_suffix demo_lib (lit ''bad.pdf'') = Inl ReadError"
    by (simp add: demo_simps)
  have 4: "load_documents demo_lib (Some ([lit ''a.txt''] @ lit ''bad.pdf'' # [lit ''c.txt'']))
       = Inl ReadError"
    using skipped_documents_do_not_stop_loading
      [of demo_lib _ "lit ''bad.pdf''" _ "[lit ''a.txt'']" ReadError "[lit ''c.txt'']"] pre bad
    by blast
  have unr: "list_all (\<lambda>f. \<not> upload_raises demo_lib f) ?up"
    by (simp add: upload_raises_def demo_simps)
  have uv: "filter (upload_valid demo_lib) ?up = [lit ''a.txt'', lit ''c.txt'']"
    "filter (\<lambda>f. \<not> upload_valid demo_lib f) ?up = [lit ''b.txt'']"
    by (simp_all add: upload_valid_def demo_simps)
  have ut: "map (upload_text demo_lib) [lit ''a.txt'', lit ''c.txt'']
              = [lit ''the cat sat'', lit ''the cat ran'']"
    by (simp add: upload_text_def demo_simps)
  have 5: "upload_loop demo_lib ?up ([], [], []) =
       Inr ([lit ''the cat sat'', lit ''the cat ran''], [lit ''a.txt'', lit ''c.txt''],
            [CouldNotProcess (lit ''b.txt'')])"
    using skipped_documents_do_not_stop_loading
      [of demo_lib _ _ _ _ _ _ ?up] unr
    unfolding uv ut by simp
  have va: "is_valid demo_lib (lit ''a.txt'')" by (simp add: is_valid_def demo_simps)
  have 6: "warning_of demo_lib (lit ''a.txt'') = []"
    using skipped_documents_do_not_stop_loading [of demo_lib _ "lit ''a.txt''"] va by blast
  have upre: "list_all (\<lambda>f. \<not> upload_raises demo_lib f) [lit ''a.txt'']"
    by (simp add: upload_raises_def demo_simps)
  have ubad: "extract_text demo_lib (lit ''bad.pdf'') = Inl ReadError"
    by (simp add: demo_simps)
  have 7: "upload_loop demo_lib ([lit ''a.txt''] @ lit ''bad.pdf'' # [lit ''c.txt''])
             ([], [], []) = Inl ReadError"
    using skipped_documents_do_not_stop_loading
      [of demo_lib _ "lit ''bad.pdf''" _ _ ReadError _ _ "[lit ''a.txt'']" "[lit ''c.txt'']"]
      upre ubad
    by blast
  show ?thesis using nr 1 2 3 4 5 va 6 7 by blast
qed

subsection \<open>Symmetry of the similarity matrix\<close>

lemma dot_commute: "dot x y = dot y x"
proof -
  have "map2 (*) x y = map2 (*) y x"
    by (induction x y rule: list_induct2') (simp_all add: mult.commute)
  then show ?thesis by (simp add: dot_def)
qed

lemma length_cosine_similarity: "length (cosine_similarity X) = length X"
  by (simp add: cosine_similarity_def Let_def)

lemma cosine_similarity_nth:
  "i < length X \<Longrightarrow> j < length X \<Longrightarrow>
   cosine_similarity X ! i ! j = dot (l2_normalize (X ! i)) (l2_normalize (X ! j))"
  by (simp add: cosine_similarity_def Let_def)

lemma cosine_similarity_square: "is_square (length (cosine_similarity X)) (cosine_similarity X)"
  by (simp add: is_square_def cosine_similarity_def Let_def list_all_iff)

lemma cosine_similarity_symmetric:
  "i < length X \<Longrightarrow> j < length X \<Longrightarrow>
   cosine_similarity X ! i ! j = cosine_similarity X ! j ! i"
  by (simp add: cosine_similarity_nth dot_commute)

text \<open>
  Claim C7. With the library's cosine similarity as the spec describes it, the matrix
  returned by \<open>compute_similarity_matrix\<close>, \<open>compute_semantic_similarity\<close> and
  \<open>compute_similarity\<close> for any corpus of texts is square and exactly symmetric:
  \<open>M[i, j] = M[j, i]\<close> for every pair of indices.
\<close>

theorem similarity_matrix_symmetric:
  assumes "tfidf_cosine L = spec_tfidf_cosine vectorize"
  shows "(\<exists>M. compute_similarity_matrix L texts = Inr M \<and> is_square (length M) M
            \<and> (\<forall>i < length M. \<forall>j < length M. M ! i ! j = M ! j ! i))
       \<and> (\<exists>M. compute_semantic_similarity L texts = Inr M \<and> is_square (length M) M
            \<and> (\<forall>i < length M. \<forall>j < length M. M ! i ! j = M ! j ! i))
       \<and> (\<exists>M. compute_similarity L texts enhanced = Inr M \<and> is_square (length M) M
            \<and> (\<forall>i < length M. \<forall>j < length M. M ! i ! j = M ! j ! i))"
proof -
  have sym: "is_square (length (cosine_similarity X)) (cosine_similarity X)
      \<and> (\<forall>i < length (cosine_similarity X). \<forall>j < length (cosine_similarity X).
            cosine_similarity X ! i ! j = cosine_similarity X ! j ! i)" for X
    using cosine_similarity_square [of X] cosine_similarity_symmetric [of _ X]
    by (simp add: length_cosine_similarity)
  show ?thesis
    unfolding compute_similarity_matrix_def compute_semantic_similarity_def
      compute_similarity_def assms spec_tfidf_cosine_def
    using sym by blast
qed

lemma sqrt_25: "sqrt 25 = 5"
  by (rule real_sqrt_unique) simp_all

lemma demo_cosine:
  "cosine_similarity [[3, 4], [4, 3]] = [[1, 24 / 25], [24 / 25, 1]]"
  by (simp add: cosine_similarity_def l2_normalize_def dot_def sqrt_25)

theorem similarity_matrix_symmetric_witness:
  "tfidf_cosine demo_spec_lib = spec_tfidf_cosine demo_vectorize
   \<and> compute_similarity_matrix demo_spec_lib [lit ''the cat sat'', lit ''the cat ran'']
       = Inr [[1, 24 / 25], [24 / 25, 1]]
   \<and> [[1, 24 / 25], [24 / 25, 1 :: real]] ! 0 ! 1 = [[1, 24 / 25], [24 / 25, 1]] ! 1 ! 0"
proof -
  let ?texts = "[lit ''the cat sat'', lit ''the cat ran'']"
  let ?M = "[[1, 24 / 25], [24 / 25, 1 :: real]]"
  have lib: "tfidf_cosine demo_spec_lib = spec_tfidf_cosine demo_vectorize"
    by (simp add: demo_spec_lib_def)
  have vec: "demo_vectorize ngram_range ?texts = [[3, 4], [4, 3]]" for ngram_range
    by (simp add: demo_vectorize_def lit_def)
  have ev: "compute_similarity_matrix demo_spec_lib ?texts = Inr ?M"
    by (simp add: compute_similarity_matrix_def lib spec_tfidf_cosine_def vec demo_cosine)
  from similarity_matrix_symmetric [OF lib, of ?texts] obtain M where
    M: "compute_similarity_matrix demo_spec_lib ?texts = Inr M"
    and sym: "\<forall>i < length M. \<forall>j < length M. M ! i ! j = M ! j ! i"
    by blast
  from M ev have eq: "M = ?M" by simp
  have "?M ! 0 ! 1 = ?M ! 1 ! 0"
    by (rule sym [unfolded eq, rule_format]) simp_all
  then show ?thesis using lib ev by blast
qed

end
